(* ===== verification/Prelude.thy ===== *)
theory Prelude
  imports Complex_Main
begin

text \<open>
  Shared vocabulary of the development: the named collections of rewrite rules
  the component theories add to, and generic lemmas on lists of indices, finite
  sums and function iteration that the proofs about the numeric loops of
  \<open>src/index.js\<close> share.
\<close>

named_theorems jsnum_simps
  "evaluation rules of the JavaScript number operations on concrete values"

named_theorems trace_simps
  "unfolding rules of the trace-producing loops"

subsection \<open>Index lists\<close>

text \<open>The loops of the program count from a start index; their closed forms
  are maps over \<open>[0..<n]\<close>, split at the front by this rule.\<close>

lemma upt_Suc_map_Suc: "[0..<Suc n] = 0 # map Suc [0..<n]"
  by (simp add: upt_conv_Cons map_Suc_upt)

lemma find_map_comp: "find P (map f xs) = map_option f (find (P \<circ> f) xs)"
  by (induction xs) auto

lemma find_upt_Suc:
  "find P [0..<Suc n] =
     (if P 0 then Some 0 else map_option Suc (find (P \<circ> Suc) [0..<n]))"
  by (subst upt_Suc_map_Suc) (simp add: find_map_comp)

subsection \<open>Finite sums over a shifted start point\<close>

lemma sum_lessThan_Suc_front:
  "(\<Sum>k<Suc n. f k) = f 0 + (\<Sum>k<n. f (Suc k))"
  by (rule sum.lessThan_Suc_shift)

lemma sum_telescope_lessThan:
  fixes F :: "nat \<Rightarrow> real"
  shows "(\<Sum>k<n. F (Suc k) - F k) = F n - F 0"
  by (induction n) auto

subsection \<open>Iterating a step function\<close>

lemma funpow_Suc_inner: "(f ^^ Suc k) x = (f ^^ k) (f x)"
  by (simp add: funpow_swap1)

end
