(* ===== verification/JSNum.thy ===== *)
theory JSNum
  imports Prelude
begin

text \<open>
  The JavaScript number values the program computes with.  Every quantity of
  \<open>src/index.js\<close> (the estimate \<open>x\<close>, \<open>f(x)\<close>, the slope, \<open>y\<close>, the step
  size) is an IEEE-754 double.  The model keeps the special values that the
  program's error handling relies on -- \<open>NaN\<close> and the two infinities -- and
  represents finite values by exact reals: rounding is not modelled, so the
  theorems are about the algorithms in exact arithmetic together with the IEEE
  rules for the special values (those of \<open>fadd\<close>, \<open>fmul\<close>, \<open>fdiv\<close> in the
  IEEE-754 formalisation of the AFP).  Signed zero is not modelled: a zero is
  the positive zero, which is what \<open>f1 - f2\<close> yields for equal finite
  \<open>f1\<close>, \<open>f2\<close> under round-to-nearest.
\<close>

datatype jsnum = Fin real | PInf | NInf | NaN

definition inf_signed :: "bool \<Rightarrow> jsnum" where
  "inf_signed pos = (if pos then PInf else NInf)"

fun js_neg :: "jsnum \<Rightarrow> jsnum" where
  "js_neg (Fin a) = Fin (- a)"
| "js_neg PInf = NInf"
| "js_neg NInf = PInf"
| "js_neg NaN = NaN"

fun js_add :: "jsnum \<Rightarrow> jsnum \<Rightarrow> jsnum" where
  "js_add NaN _ = NaN"
| "js_add _ NaN = NaN"
| "js_add PInf NInf = NaN"
| "js_add NInf PInf = NaN"
| "js_add PInf _ = PInf"
| "js_add NInf _ = NInf"
| "js_add _ PInf = PInf"
| "js_add _ NInf = NInf"
| "js_add (Fin a) (Fin b) = Fin (a + b)"

fun js_mul :: "jsnum \<Rightarrow> jsnum \<Rightarrow> jsnum" where
  "js_mul NaN _ = NaN"
| "js_mul _ NaN = NaN"
| "js_mul (Fin a) (Fin b) = Fin (a * b)"
| "js_mul (Fin a) PInf = (if a = 0 then NaN else inf_signed (0 < a))"
| "js_mul (Fin a) NInf = (if a = 0 then NaN else inf_signed (a < 0))"
| "js_mul PInf (Fin b) = (if b = 0 then NaN else inf_signed (0 < b))"
| "js_mul NInf (Fin b) = (if b = 0 then NaN else inf_signed (b < 0))"
| "js_mul PInf PInf = PInf"
| "js_mul NInf NInf = PInf"
| "js_mul PInf NInf = NInf"
| "js_mul NInf PInf = NInf"

text \<open>Division: a nonzero finite value over zero is an infinity of its sign,
  \<open>0/0\<close> and \<open>\<infinity>/\<infinity>\<close> are \<open>NaN\<close>, a finite value over an infinity is zero.\<close>

fun js_div :: "jsnum \<Rightarrow> jsnum \<Rightarrow> jsnum" where
  "js_div NaN _ = NaN"
| "js_div _ NaN = NaN"
| "js_div (Fin a) (Fin b) =
     (if b = 0 then (if a = 0 then NaN else inf_signed (0 < a)) else Fin (a / b))"
| "js_div (Fin a) PInf = Fin 0"
| "js_div (Fin a) NInf = Fin 0"
| "js_div PInf (Fin b) = inf_signed (0 \<le> b)"
| "js_div NInf (Fin b) = inf_signed (b < 0)"
| "js_div PInf PInf = NaN"
| "js_div PInf NInf = NaN"
| "js_div NInf PInf = NaN"
| "js_div NInf NInf = NaN"

fun js_abs :: "jsnum \<Rightarrow> jsnum" where
  "js_abs (Fin a) = Fin \<bar>a\<bar>"
| "js_abs PInf = PInf"
| "js_abs NInf = PInf"
| "js_abs NaN = NaN"

text \<open>The relational operator \<open><\<close>: every comparison with \<open>NaN\<close> is false.\<close>

fun js_less :: "jsnum \<Rightarrow> jsnum \<Rightarrow> bool" where
  "js_less NaN _ = False"
| "js_less _ NaN = False"
| "js_less (Fin a) (Fin b) = (a < b)"
| "js_less NInf NInf = False"
| "js_less NInf _ = True"
| "js_less PInf _ = False"
| "js_less (Fin a) PInf = True"
| "js_less (Fin a) NInf = False"

text \<open>The operators of the source read as HOL's operator syntax on \<open>jsnum\<close>:
  \<open>x + h\<close>, \<open>x - f / f'\<close>, \<open>h * s\<close>, \<open>\<bar>f\<bar> < tol\<close>.  Only the syntactic
  classes are instantiated; none of the algebraic laws of \<open>real\<close> is claimed
  for \<open>jsnum\<close>.\<close>

instantiation jsnum :: "{plus, minus, uminus, times, inverse, abs, ord}"
begin

definition plus_jsnum :: "jsnum \<Rightarrow> jsnum \<Rightarrow> jsnum" where
  "a + b = js_add a b"

definition uminus_jsnum :: "jsnum \<Rightarrow> jsnum" where
  "- a = js_neg a"

definition minus_jsnum :: "jsnum \<Rightarrow> jsnum \<Rightarrow> jsnum" where
  "a - b = js_add a (js_neg b)"

definition times_jsnum :: "jsnum \<Rightarrow> jsnum \<Rightarrow> jsnum" where
  "a * b = js_mul a b"

definition divide_jsnum :: "jsnum \<Rightarrow> jsnum \<Rightarrow> jsnum" where
  "divide a b = js_div a b"

definition inverse_jsnum :: "jsnum \<Rightarrow> jsnum" where
  "inverse a = js_div (Fin 1) a"

definition abs_jsnum :: "jsnum \<Rightarrow> jsnum" where
  "\<bar>a\<bar> = js_abs a"

definition less_jsnum :: "jsnum \<Rightarrow> jsnum \<Rightarrow> bool" where
  "a < b \<longleftrightarrow> js_less a b"

definition less_eq_jsnum :: "jsnum \<Rightarrow> jsnum \<Rightarrow> bool" where
  "a \<le> b \<longleftrightarrow> js_less a b \<or> (a = b \<and> a \<noteq> NaN)"

instance ..

end

declare plus_jsnum_def [simp] uminus_jsnum_def [simp] minus_jsnum_def [simp]
  times_jsnum_def [simp] divide_jsnum_def [simp] inverse_jsnum_def [simp] abs_jsnum_def [simp]
  less_jsnum_def [simp] less_eq_jsnum_def [simp]

subsection \<open>NaN absorbs every operation\<close>

text \<open>The program relies on this (spec, section 4.1): an undefined
  evaluation poisons all arithmetic that uses it.\<close>

lemma js_add_NaN_right [simp, jsnum_simps]: "js_add x NaN = NaN"
  by (cases x) auto

lemma js_mul_NaN_right [simp, jsnum_simps]: "js_mul x NaN = NaN"
  by (cases x) auto

lemma js_div_NaN_right [simp, jsnum_simps]: "js_div x NaN = NaN"
  by (cases x) auto

lemma js_less_NaN_right [simp, jsnum_simps]: "\<not> js_less x NaN"
  by (cases x) auto

lemma js_abs_eq_NaN [simp, jsnum_simps]: "js_abs x = NaN \<longleftrightarrow> x = NaN"
  by (cases x) auto

lemma js_neg_eq_NaN [simp, jsnum_simps]: "js_neg x = NaN \<longleftrightarrow> x = NaN"
  by (cases x) auto

lemma inf_signed_simps [simp, jsnum_simps]:
  "inf_signed True = PInf" "inf_signed False = NInf"
  "inf_signed b \<noteq> NaN" "inf_signed b \<noteq> Fin r"
  by (simp_all add: inf_signed_def)

subsection \<open>Finite results come from finite operands\<close>

lemma js_add_eq_Fin:
  "js_add x y = Fin c \<longleftrightarrow> (\<exists>a b. x = Fin a \<and> y = Fin b \<and> c = a + b)"
  by (cases x; cases y) auto

lemma js_mul_eq_Fin:
  "js_mul x y = Fin c \<longleftrightarrow> (\<exists>a b. x = Fin a \<and> y = Fin b \<and> c = a * b)"
  by (cases x; cases y) (auto simp: inf_signed_def)

end
