(* ===== verification/Evaluator.thy ===== *)
theory Evaluator
  imports JSNum
begin

text \<open>
  The evaluator adapter and the numeric differentiator of \<open>src/index.js\<close>
  (\<open>evaluateFunction\<close>, lines 138--144, and \<open>derivative\<close>, lines 147--151).
  The JavaScript runtime the adapter calls is a record of functions,
  \<open>js_env\<close>: mathjs's \<open>math.evaluate\<close> on a closed expression string
  (\<open>None\<close> where it throws), the conversion of a number to the string that
  \<open>String.prototype.replace\<close> inserts, and the global \<open>parseFloat\<close> that
  the page uses on its input fields.  The regular-expression substitution
  \<open>eq.replace(/x/g, x)\<close> is modelled exactly, character by character.

  The numeric routines call the evaluator through the interface
  \<open>'e evaluator\<close>: an expression handle of any type and a function from a
  handle and a number to a number.  \<open>evaluateFunction E\<close> is the instance the
  page uses, with \<open>'e = string\<close>.
\<close>

type_synonym 'e evaluator = "'e \<Rightarrow> jsnum \<Rightarrow> jsnum"

record js_env =
  math_evaluate :: "string \<Rightarrow> jsnum option"
  num_to_string :: "jsnum \<Rightarrow> string"
  parse_float :: "string \<Rightarrow> jsnum"

text \<open>\<open>eq.replace(/x/g, r)\<close>: every character \<open>x\<close> of the expression text is
  replaced by the text \<open>r\<close>, wherever it occurs.\<close>

fun replace_all_x :: "string \<Rightarrow> string \<Rightarrow> string" where
  "replace_all_x [] r = []"
| "replace_all_x (c # cs) r =
     (if c = CHR ''x'' then r @ replace_all_x cs r else c # replace_all_x cs r)"

definition evaluateFunction :: "js_env \<Rightarrow> string evaluator" where
  "evaluateFunction E eq x =
     (case math_evaluate E (replace_all_x eq (num_to_string E x)) of
        None \<Rightarrow> NaN
      | Some v \<Rightarrow> v)"

text \<open>The default step of the central difference, \<open>h = 1e-5\<close>.\<close>

definition deriv_h :: jsnum where
  "deriv_h = Fin 0.00001"

definition derivative :: "'e evaluator \<Rightarrow> 'e \<Rightarrow> jsnum \<Rightarrow> jsnum \<Rightarrow> jsnum" where
  "derivative ev eq x h =
     (let f1 = ev eq (x + h);
          f2 = ev eq (x - h)
      in (f1 - f2) / (Fin 2 * h))"

subsection \<open>The substitution\<close>

lemma replace_all_x_append [simp]:
  "replace_all_x (a @ b) r = replace_all_x a r @ replace_all_x b r"
  by (induction a) auto

lemma replace_all_x_no_x [simp]: "CHR ''x'' \<notin> set eq \<Longrightarrow> replace_all_x eq r = eq"
  by (induction eq) auto

lemma set_replace_all_x:
  "set (replace_all_x eq r) =
     (set eq - {CHR ''x''}) \<union> (if CHR ''x'' \<in> set eq then set r else {})"
  by (induction eq) auto

subsection \<open>The central difference on finite values\<close>

lemma derivative_Fin:
  assumes "ev eq (Fin (x + h)) = Fin a" and "ev eq (Fin (x - h)) = Fin b" and "h \<noteq> 0"
  shows "derivative ev eq (Fin x) (Fin h) = Fin ((a - b) / (2 * h))"
  using assms by (simp add: derivative_def)

lemma replace_all_x_exp:
  "replace_all_x ''exp(x)'' r = ''e'' @ r @ ''p('' @ r @ '')''"
  by simp

subsection \<open>Properties of the adapter and the differentiator\<close>

text \<open>C22: the substitution is textual and total: when the rendering of the
  number has no letter \<open>x\<close> (no JavaScript number rendering has one), the
  string handed to mathjs has no \<open>x\<close> left, including those inside function
  names such as \<open>exp\<close> or \<open>max\<close>.\<close>

theorem replace_all_x_removes_x:
  assumes "CHR ''x'' \<notin> set r"
  shows "CHR ''x'' \<notin> set (replace_all_x eq r)"
  using assms by (simp add: set_replace_all_x)

text \<open>C23: the derivative is undefined when either sample is: a NaN evaluation
  at \<open>x + h\<close> or at \<open>x - h\<close> makes the central difference NaN.\<close>

theorem derivative_NaN:
  assumes "ev eq (x + h) = NaN \<or> ev eq (x - h) = NaN"
  shows "derivative ev eq x h = NaN"
  using assms by (auto simp: derivative_def Let_def)

text \<open>C24: the central difference is exact for quadratic expressions: on
  finite values it returns the derivative \<open>c1 + 2 c2 x\<close> of
  \<open>c0 + c1 t + c2 t\<^sup>2\<close> for every nonzero step \<open>h\<close>.\<close>

theorem derivative_exact_quadratic:
  assumes "\<forall>t. ev eq (Fin t) = Fin (c0 + c1 * t + c2 * t ^ 2)" and "h \<noteq> 0"
  shows "derivative ev eq (Fin x) (Fin h) = Fin (c1 + 2 * c2 * x)"
proof -
  have "((c0 + c1 * (x + h) + c2 * (x + h) ^ 2) - (c0 + c1 * (x - h) + c2 * (x - h) ^ 2)) / (2 * h) =
        c1 + 2 * c2 * x"
    using assms(2) by (simp add: field_simps power2_eq_square)
  with assms show ?thesis
    by (simp add: derivative_Fin)
qed

end
