(* ===== verification/NewtonRaphson.thy ===== *)
theory NewtonRaphson
  imports Evaluator
begin

text \<open>
  The root finder \<open>newtonRaphson(eq, x0, maxIter = 10, tol = 1e-6)\<close> of
  \<open>src/index.js\<close> (lines 63--88).  The function returns an HTML string built
  by appending to \<open>detailedSteps\<close>; the model returns the sequence of the
  appended pieces, one constructor of \<open>nr_line\<close> per kind of append, carrying
  the numbers the piece interpolates (their rendering with \<open>toFixed\<close> is
  presentation and is not modelled).  The \<open>for\<close> loop is \<open>nr_loop\<close>, recursive
  in the number of iterations left, so it terminates by construction; the
  early \<open>return\<close> on convergence is the branch that stops the recursion.

  Beside it stands the abstract specification: the Newton map \<open>nr_step\<close>,
  its iterates \<open>nr_iterate\<close>, the first converged index \<open>nr_first\<close> and the
  promised outcome \<open>nr_spec\<close>.  The lemmas at the end give the loop in closed
  form in terms of them.
\<close>

datatype nr_line =
    NRHeader
  | NRIteration nat jsnum jsnum jsnum
  | NRRootFound jsnum
  | NRNewX jsnum
  | NRApproxRoot nat jsnum

fun nr_loop ::
  "'e evaluator \<Rightarrow> 'e \<Rightarrow> nat \<Rightarrow> jsnum \<Rightarrow> nat \<Rightarrow> nat \<Rightarrow> jsnum \<Rightarrow> nr_line list" where
  "nr_loop ev eq maxIter tol i 0 x = [NRApproxRoot maxIter x]"
| "nr_loop ev eq maxIter tol i (Suc n) x =
     (let fVal = ev eq x;
          fPrimeVal = derivative ev eq x deriv_h
      in NRIteration (Suc i) x fVal fPrimeVal #
         (if \<bar>fVal\<bar> < tol then [NRRootFound x]
          else (let newX = x - fVal / fPrimeVal
                in NRNewX newX # nr_loop ev eq maxIter tol (Suc i) n newX)))"

definition newtonRaphson ::
  "'e evaluator \<Rightarrow> 'e \<Rightarrow> jsnum \<Rightarrow> nat \<Rightarrow> jsnum \<Rightarrow> nr_line list" where
  "newtonRaphson ev eq x0 maxIter tol = NRHeader # nr_loop ev eq maxIter tol 0 maxIter x0"

text \<open>The defaults of the signature, used by the page's solve handler.\<close>

definition nr_default_maxIter :: nat where
  "nr_default_maxIter = 10"

definition nr_default_tol :: jsnum where
  "nr_default_tol = Fin 0.000001"

subsection \<open>Reading a trace\<close>

text \<open>The estimates the trace reports, in order, and the iteration numbers.\<close>

fun nr_xs :: "nr_line list \<Rightarrow> jsnum list" where
  "nr_xs [] = []"
| "nr_xs (NRIteration i x f f' # ls) = x # nr_xs ls"
| "nr_xs (_ # ls) = nr_xs ls"

fun nr_indices :: "nr_line list \<Rightarrow> nat list" where
  "nr_indices [] = []"
| "nr_indices (NRIteration i x f f' # ls) = i # nr_indices ls"
| "nr_indices (_ # ls) = nr_indices ls"

datatype nr_outcome = Converged jsnum | Exhausted jsnum

text \<open>The outcome a trace reports is its last piece: "Root found" or
  "Approximate root after ... iterations"; anything else reports none.\<close>

fun nr_result :: "nr_line list \<Rightarrow> nr_outcome option" where
  "nr_result [] = None"
| "nr_result [NRRootFound x] = Some (Converged x)"
| "nr_result [NRApproxRoot n x] = Some (Exhausted x)"
| "nr_result [_] = None"
| "nr_result (_ # ls) = nr_result ls"

subsection \<open>Abstract specification: the Newton iteration\<close>

definition nr_step :: "'e evaluator \<Rightarrow> 'e \<Rightarrow> jsnum \<Rightarrow> jsnum" where
  "nr_step ev eq x = x - ev eq x / derivative ev eq x deriv_h"

definition nr_converged :: "'e evaluator \<Rightarrow> 'e \<Rightarrow> jsnum \<Rightarrow> jsnum \<Rightarrow> bool" where
  "nr_converged ev eq tol x \<longleftrightarrow> \<bar>ev eq x\<bar> < tol"

primrec nr_iterate :: "'e evaluator \<Rightarrow> 'e \<Rightarrow> jsnum \<Rightarrow> nat \<Rightarrow> jsnum" where
  "nr_iterate ev eq x 0 = x"
| "nr_iterate ev eq x (Suc k) = nr_iterate ev eq (nr_step ev eq x) k"

definition nr_first :: "'e evaluator \<Rightarrow> 'e \<Rightarrow> jsnum \<Rightarrow> jsnum \<Rightarrow> nat \<Rightarrow> nat option" where
  "nr_first ev eq tol x0 m = find (\<lambda>k. nr_converged ev eq tol (nr_iterate ev eq x0 k)) [0..<m]"

definition nr_count :: "'e evaluator \<Rightarrow> 'e \<Rightarrow> jsnum \<Rightarrow> jsnum \<Rightarrow> nat \<Rightarrow> nat" where
  "nr_count ev eq tol x0 m = (case nr_first ev eq tol x0 m of Some k \<Rightarrow> Suc k | None \<Rightarrow> m)"

definition nr_spec :: "'e evaluator \<Rightarrow> 'e \<Rightarrow> jsnum \<Rightarrow> nat \<Rightarrow> jsnum \<Rightarrow> nr_outcome" where
  "nr_spec ev eq x0 m tol =
     (case nr_first ev eq tol x0 m of
        Some k \<Rightarrow> Converged (nr_iterate ev eq x0 k)
      | None \<Rightarrow> Exhausted (nr_iterate ev eq x0 m))"

subsection \<open>One iteration of the loop\<close>

lemma nr_loop_Suc_conv [trace_simps]:
  "nr_converged ev eq tol x \<Longrightarrow>
   nr_loop ev eq M tol i (Suc n) x =
     [NRIteration (Suc i) x (ev eq x) (derivative ev eq x deriv_h), NRRootFound x]"
  by (simp add: nr_converged_def Let_def)

lemma nr_loop_Suc_step [trace_simps]:
  "\<not> nr_converged ev eq tol x \<Longrightarrow>
   nr_loop ev eq M tol i (Suc n) x =
     NRIteration (Suc i) x (ev eq x) (derivative ev eq x deriv_h) #
     NRNewX (nr_step ev eq x) # nr_loop ev eq M tol (Suc i) n (nr_step ev eq x)"
  by (simp add: nr_converged_def nr_step_def Let_def)

declare nr_loop.simps(2) [simp del]

lemma nr_loop_not_Nil [simp]: "nr_loop ev eq M tol i n x \<noteq> []"
  by (cases n) (simp_all add: Let_def nr_loop.simps(2))

lemma nr_result_Cons: "ls \<noteq> [] \<Longrightarrow> nr_result (l # ls) = nr_result ls"
  by (cases ls) auto

lemma nr_iterate_comp_Suc [simp]: "nr_iterate ev eq x \<circ> Suc = nr_iterate ev eq (nr_step ev eq x)"
  by (rule ext) simp

lemma nr_first_Suc:
  "nr_first ev eq tol x (Suc n) =
     (if nr_converged ev eq tol x then Some 0
      else map_option Suc (nr_first ev eq tol (nr_step ev eq x) n))"
  unfolding nr_first_def find_upt_Suc by (simp add: comp_def)

lemma nr_first_0 [simp]: "nr_first ev eq tol x 0 = None"
  by (simp add: nr_first_def)

lemma nr_spec_0 [simp]: "nr_spec ev eq x 0 tol = Exhausted x"
  by (simp add: nr_spec_def)

lemma nr_count_0 [simp]: "nr_count ev eq tol x 0 = 0"
  by (simp add: nr_count_def nr_first_def)

lemma nr_count_Suc:
  "nr_count ev eq tol x (Suc n) =
     (if nr_converged ev eq tol x then 1 else Suc (nr_count ev eq tol (nr_step ev eq x) n))"
  by (cases "nr_first ev eq tol (nr_step ev eq x) n") (auto simp: nr_count_def nr_first_Suc)

lemma nr_spec_Suc:
  "nr_spec ev eq x (Suc n) tol =
     (if nr_converged ev eq tol x then Converged x else nr_spec ev eq (nr_step ev eq x) n tol)"
  by (cases "nr_first ev eq tol (nr_step ev eq x) n") (auto simp: nr_spec_def nr_first_Suc)

subsection \<open>The loop in closed form\<close>

lemma nr_loop_result:
  "nr_result (nr_loop ev eq M tol i n x) = Some (nr_spec ev eq x n tol)"
proof (induction n arbitrary: i x)
  case 0
  then show ?case by (simp add: nr_spec_def nr_first_def)
next
  case (Suc n)
  then show ?case
    by (cases "nr_converged ev eq tol x")
       (simp_all add: nr_loop_Suc_conv nr_loop_Suc_step nr_spec_Suc nr_result_Cons)
qed

lemma nr_loop_xs:
  "nr_xs (nr_loop ev eq M tol i n x) = map (nr_iterate ev eq x) [0..<nr_count ev eq tol x n]"
proof (induction n arbitrary: i x)
  case 0
  then show ?case by (simp add: nr_count_def nr_first_def)
next
  case (Suc n)
  then show ?case
    by (cases "nr_converged ev eq tol x")
       (simp_all add: nr_loop_Suc_conv nr_loop_Suc_step nr_count_Suc upt_Suc_map_Suc del: upt_Suc)
qed

lemma nr_loop_indices:
  "nr_indices (nr_loop ev eq M tol i n x) = [Suc i..<Suc i + nr_count ev eq tol x n]"
proof (induction n arbitrary: i x)
  case 0
  then show ?case by (simp add: nr_count_def nr_first_def)
next
  case (Suc n)
  then show ?case
    by (cases "nr_converged ev eq tol x")
       (simp_all add: nr_loop_Suc_conv nr_loop_Suc_step nr_count_Suc upt_conv_Cons)
qed

lemma nr_count_le: "nr_count ev eq tol x n \<le> n"
  by (induction n arbitrary: x) (simp_all add: nr_count_Suc)

subsection \<open>Facts about the specification\<close>

lemma nr_first_SomeD:
  "nr_first ev eq tol x m = Some k \<Longrightarrow>
   k < m \<and> nr_converged ev eq tol (nr_iterate ev eq x k) \<and>
   (\<forall>j<k. \<not> nr_converged ev eq tol (nr_iterate ev eq x j))"
  by (auto simp: nr_first_def find_Some_iff)

lemma nr_first_None_iff:
  "nr_first ev eq tol x m = None \<longleftrightarrow> (\<forall>j<m. \<not> nr_converged ev eq tol (nr_iterate ev eq x j))"
  by (auto simp: nr_first_def find_None_iff)

lemma nr_step_NaN [simp]: "nr_step ev eq NaN = NaN"
  by (simp add: nr_step_def)

lemma nr_iterate_NaN [simp]: "nr_iterate ev eq NaN k = NaN"
  by (induction k) simp_all

lemma nr_iterate_add: "nr_iterate ev eq x (j + k) = nr_iterate ev eq (nr_iterate ev eq x j) k"
  by (induction j arbitrary: x) simp_all

lemma nr_not_converged_NaN: "ev eq NaN = NaN \<Longrightarrow> \<not> nr_converged ev eq tol NaN"
  by (simp add: nr_converged_def)

lemma nr_iterate_NaN_after:
  assumes "nr_iterate ev eq x k = NaN" and "k \<le> j"
  shows "nr_iterate ev eq x j = NaN"
proof -
  from assms(2) obtain d where "j = k + d" by (auto dest: le_Suc_ex)
  with assms(1) show ?thesis by (simp add: nr_iterate_add)
qed

lemmas nr_trace_facts = nr_loop_result nr_loop_xs nr_loop_indices nr_count_le

subsection \<open>Properties of \<open>newtonRaphson\<close>\<close>

text \<open>C1: the outcome the trace reports is the outcome of the Newton iteration
  specification: the first iterate among the first \<open>maxIter\<close> whose residual is
  below \<open>tol\<close> is reported as the root, and otherwise the estimate after
  \<open>maxIter\<close> steps is reported as approximate.\<close>

theorem newtonRaphson_refines_spec:
  "nr_result (newtonRaphson ev eq x0 maxIter tol) = Some (nr_spec ev eq x0 maxIter tol)"
  by (simp add: newtonRaphson_def nr_result_Cons nr_loop_result)

text \<open>C2: the trace reports, in order, the Newton iterates
  \<open>x0, step x0, step (step x0), ...\<close>, numbered \<open>1, 2, ...\<close> without gaps,
  and at most \<open>maxIter\<close> of them.\<close>

theorem newtonRaphson_estimates:
  "nr_xs (newtonRaphson ev eq x0 maxIter tol) =
     map (nr_iterate ev eq x0) [0..<nr_count ev eq tol x0 maxIter] \<and>
   nr_indices (newtonRaphson ev eq x0 maxIter tol) = [1..<Suc (nr_count ev eq tol x0 maxIter)] \<and>
   nr_count ev eq tol x0 maxIter \<le> maxIter"
  by (simp add: newtonRaphson_def nr_trace_facts)

text \<open>C3: a reported root is one of the reported estimates and its residual
  \<open>|f(x)|\<close> is below the tolerance.\<close>

theorem newtonRaphson_root_sound:
  assumes "nr_result (newtonRaphson ev eq x0 maxIter tol) = Some (Converged r)"
  shows "\<bar>ev eq r\<bar> < tol \<and> r \<in> set (nr_xs (newtonRaphson ev eq x0 maxIter tol))"
proof -
  from assms obtain k where k: "nr_first ev eq tol x0 maxIter = Some k"
    and r: "r = nr_iterate ev eq x0 k"
    by (auto simp: newtonRaphson_def nr_result_Cons nr_loop_result nr_spec_def
             split: option.splits)
  from nr_first_SomeD [OF k] have "k < Suc k" and conv: "nr_converged ev eq tol r"
    by (simp_all add: r)
  moreover have "nr_count ev eq tol x0 maxIter = Suc k"
    by (simp add: nr_count_def k)
  ultimately show ?thesis
    using r by (auto simp: newtonRaphson_def nr_loop_xs nr_converged_def)
qed

text \<open>C4: when the trace reports an approximate root, it made exactly
  \<open>maxIter\<close> iterations, none of the estimates met the tolerance, and the
  reported value is the \<open>maxIter\<close>-th Newton iterate.\<close>

theorem newtonRaphson_exhausted:
  assumes "nr_result (newtonRaphson ev eq x0 maxIter tol) = Some (Exhausted r)"
  shows "length (nr_xs (newtonRaphson ev eq x0 maxIter tol)) = maxIter \<and>
         (\<forall>x \<in> set (nr_xs (newtonRaphson ev eq x0 maxIter tol)). \<not> \<bar>ev eq x\<bar> < tol) \<and>
         r = nr_iterate ev eq x0 maxIter"
proof -
  from assms have none: "nr_first ev eq tol x0 maxIter = None"
    and r: "r = nr_iterate ev eq x0 maxIter"
    by (auto simp: newtonRaphson_def nr_result_Cons nr_loop_result nr_spec_def
             split: option.splits)
  then have "nr_count ev eq tol x0 maxIter = maxIter"
    by (simp add: nr_count_def)
  with none r show ?thesis
    by (auto simp: newtonRaphson_def nr_loop_xs nr_first_None_iff nr_converged_def)
qed

text \<open>C5: NaN is absorbing.  If the evaluator maps NaN to NaN and an iterate
  within the budget is NaN (an undefined evaluation or a \<open>0/0\<close> step), and
  no earlier iterate converged, the run ends with "Approximate root ... NaN":
  it is reported with the same outcome as a numeric non-convergence.\<close>

theorem newtonRaphson_NaN_absorbing:
  assumes "ev eq NaN = NaN" and "nr_iterate ev eq x0 k = NaN" and "k \<le> maxIter"
    and "nr_first ev eq tol x0 k = None"
  shows "nr_result (newtonRaphson ev eq x0 maxIter tol) = Some (Exhausted NaN)"
proof -
  have "\<not> nr_converged ev eq tol (nr_iterate ev eq x0 j)" if "j < maxIter" for j
  proof (cases "j < k")
    case True
    with assms(4) show ?thesis by (simp add: nr_first_None_iff)
  next
    case False
    then have "nr_iterate ev eq x0 j = NaN"
      using assms(2) by (simp add: nr_iterate_NaN_after)
    with assms(1) show ?thesis by (simp add: nr_not_converged_NaN)
  qed
  then have "nr_first ev eq tol x0 maxIter = None"
    by (simp add: nr_first_None_iff)
  moreover have "nr_iterate ev eq x0 maxIter = NaN"
    using assms(2,3) by (rule nr_iterate_NaN_after)
  ultimately show ?thesis
    by (simp add: newtonRaphson_def nr_result_Cons nr_loop_result nr_spec_def)
qed

text \<open>C6: a flat tangent.  At a finite estimate with a nonzero finite residual
  and a zero derivative, the next estimate \<open>x - f(x)/0\<close> is an infinity
  whose sign is opposite to the residual's, not the undefined value NaN.\<close>

theorem nr_step_flat_tangent:
  assumes "ev eq (Fin x) = Fin a" and "a \<noteq> 0" and "derivative ev eq (Fin x) deriv_h = Fin 0"
  shows "nr_step ev eq (Fin x) = (if 0 < a then NInf else PInf)"
  using assms by (simp add: nr_step_def inf_signed_def)

end
