(* ===== verification/Euler.thy ===== *)
theory Euler
  imports Evaluator
begin

text \<open>
  Euler's method \<open>eulerMethod(eq, x0, h = 0.1, steps = 10)\<close> of
  \<open>src/index.js\<close> (lines 91--107): the initial value is \<open>y = f(x0)\<close> and each
  of the \<open>steps\<close> iterations takes the slope \<open>f(x)\<close>, sets
  \<open>y := y + h * slope\<close> and \<open>x := x + h\<close>, and appends a "Step i" piece with
  \<open>x\<close>, the slope, the new \<open>x\<close> and the new \<open>y\<close>.  As for the root finder, the
  model returns the sequence of appended pieces.

  \<open>euler_state\<close> is the state \<open>(x, y)\<close> after \<open>k\<close> iterations; the loop is
  proved equal to the list of steps read off it, and, on finite values, the
  state is proved equal to the real left Riemann sum
  \<open>y0 + d * (\<Sum>j<k. g (x0 + j * d))\<close>.
\<close>

datatype euler_line =
    EulerHeader
  | EulerInitial jsnum jsnum
  | EulerStep (estep_index: nat) (estep_x: jsnum) (estep_slope: jsnum)
      (estep_x_after: jsnum) (estep_y_after: jsnum)

fun euler_loop ::
  "'e evaluator \<Rightarrow> 'e \<Rightarrow> jsnum \<Rightarrow> nat \<Rightarrow> nat \<Rightarrow> jsnum \<Rightarrow> jsnum \<Rightarrow> euler_line list" where
  "euler_loop ev eq h i 0 x y = []"
| "euler_loop ev eq h i (Suc n) x y =
     (let slope = ev eq x;
          y' = y + h * slope;
          x' = x + h
      in EulerStep i x slope x' y' # euler_loop ev eq h (Suc i) n x' y')"

definition eulerMethod :: "'e evaluator \<Rightarrow> 'e \<Rightarrow> jsnum \<Rightarrow> jsnum \<Rightarrow> nat \<Rightarrow> euler_line list" where
  "eulerMethod ev eq x0 h steps =
     (let y = ev eq x0
      in EulerHeader # EulerInitial x0 y # euler_loop ev eq h 1 steps x0 y)"

definition euler_default_steps :: nat where
  "euler_default_steps = 10"

text \<open>The "Step" pieces of a trace.\<close>

fun euler_steps :: "euler_line list \<Rightarrow> euler_line list" where
  "euler_steps [] = []"
| "euler_steps (EulerStep i x s x' y' # ls) = EulerStep i x s x' y' # euler_steps ls"
| "euler_steps (_ # ls) = euler_steps ls"

subsection \<open>The state after \<open>k\<close> iterations\<close>

fun euler_state :: "'e evaluator \<Rightarrow> 'e \<Rightarrow> jsnum \<Rightarrow> nat \<Rightarrow> jsnum \<Rightarrow> jsnum \<Rightarrow> jsnum \<times> jsnum" where
  "euler_state ev eq h 0 x y = (x, y)"
| "euler_state ev eq h (Suc k) x y = euler_state ev eq h k (x + h) (y + h * ev eq x)"

definition euler_step_at :: "'e evaluator \<Rightarrow> 'e \<Rightarrow> jsnum \<Rightarrow> nat \<Rightarrow> jsnum \<Rightarrow> jsnum \<Rightarrow> nat \<Rightarrow> euler_line" where
  "euler_step_at ev eq h i x y k =
     (case euler_state ev eq h k x y of
        (xk, yk) \<Rightarrow> EulerStep (i + k) xk (ev eq xk) (xk + h) (yk + h * ev eq xk))"

text \<open>\<open>g\<close> is the real function the expression denotes where it is finite.\<close>

definition euler_sum :: "(real \<Rightarrow> real) \<Rightarrow> real \<Rightarrow> real \<Rightarrow> real \<Rightarrow> nat \<Rightarrow> real" where
  "euler_sum g x0 d y0 k = y0 + d * (\<Sum>j<k. g (x0 + real j * d))"

lemma euler_loop_closed:
  "euler_loop ev eq h i n x y = map (euler_step_at ev eq h i x y) [0..<n]"
proof (induction n arbitrary: i x y)
  case 0
  then show ?case by simp
next
  case (Suc n)
  have "euler_step_at ev eq h i x y \<circ> Suc = euler_step_at ev eq h (Suc i) (x + h) (y + h * ev eq x)"
    by (rule ext) (simp add: euler_step_at_def)
  with Suc show ?case
    by (simp add: upt_Suc_map_Suc euler_step_at_def Let_def del: upt_Suc)
qed

lemma euler_steps_loop [simp]: "euler_steps (euler_loop ev eq h i n x y) = euler_loop ev eq h i n x y"
  by (induction n arbitrary: i x y) (simp_all add: Let_def)

lemma euler_steps_method:
  "euler_steps (eulerMethod ev eq x0 h n) = map (euler_step_at ev eq h 1 x0 (ev eq x0)) [0..<n]"
  by (simp add: eulerMethod_def Let_def euler_loop_closed [symmetric])

lemma euler_state_Suc_outer:
  "euler_state ev eq h (Suc k) x y =
     (case euler_state ev eq h k x y of (xk, yk) \<Rightarrow> (xk + h, yk + h * ev eq xk))"
  by (induction k arbitrary: x y) simp_all

lemma euler_state_y_NaN: "snd (euler_state ev eq h k x NaN) = NaN"
  by (induction k arbitrary: x) simp_all

lemma euler_state_NaN_step: "0 < k \<Longrightarrow> euler_state ev eq NaN k x y = (NaN, NaN)"
proof (induction k arbitrary: x y)
  case 0
  then show ?case by simp
next
  case (Suc k)
  show ?case
  proof (cases k)
    case 0
    then show ?thesis by simp
  next
    case (Suc k')
    with Suc.IH show ?thesis by simp
  qed
qed

subsection \<open>Finite values: the left Riemann sum\<close>

lemma euler_state_Fin:
  assumes "\<forall>t. ev eq (Fin t) = Fin (g t)"
  shows "euler_state ev eq (Fin d) k (Fin x) (Fin y) =
           (Fin (x + real k * d), Fin (euler_sum g x d y k))"
  using assms
proof (induction k arbitrary: x y)
  case 0
  then show ?case by (simp add: euler_sum_def)
next
  case (Suc k)
  have shift: "x + d + real j * d = x + real (Suc j) * d" for j
    by (simp add: algebra_simps)
  have "y + d * g x + d * (\<Sum>j<k. g (x + d + real j * d)) =
        y + d * (\<Sum>j<Suc k. g (x + real j * d))"
    by (simp only: shift sum_lessThan_Suc_front) (simp add: algebra_simps)
  with Suc show ?case
    by (simp add: euler_sum_def algebra_simps)
qed

subsection \<open>Reading the steps\<close>

lemma euler_state_fst_Suc [simp]:
  "fst (euler_state ev eq h (Suc k) x y) = fst (euler_state ev eq h k x y) + h"
  unfolding euler_state_Suc_outer by (simp split: prod.split)

lemma euler_state_snd_Suc [simp]:
  "snd (euler_state ev eq h (Suc k) x y) =
     snd (euler_state ev eq h k x y) + h * ev eq (fst (euler_state ev eq h k x y))"
  unfolding euler_state_Suc_outer by (simp split: prod.split)

declare euler_state.simps(2) [simp del]

lemma euler_step_at_sel [simp]:
  "estep_index (euler_step_at ev eq h i x y k) = i + k"
  "estep_x (euler_step_at ev eq h i x y k) = fst (euler_state ev eq h k x y)"
  "estep_slope (euler_step_at ev eq h i x y k) = ev eq (fst (euler_state ev eq h k x y))"
  "estep_x_after (euler_step_at ev eq h i x y k) = fst (euler_state ev eq h k x y) + h"
  "estep_y_after (euler_step_at ev eq h i x y k) =
     snd (euler_state ev eq h k x y) + h * ev eq (fst (euler_state ev eq h k x y))"
  by (simp_all add: euler_step_at_def split: prod.split)

lemma euler_step_y_Fin:
  assumes "\<forall>t. ev eq (Fin t) = Fin (g t)" and "k < n"
  shows "estep_y_after (euler_steps (eulerMethod ev eq (Fin x0) (Fin d) n) ! k) =
           Fin (euler_sum g x0 d (g x0) (Suc k))"
proof -
  have "euler_state ev eq (Fin d) (Suc k) (Fin x0) (Fin (g x0)) =
          (Fin (x0 + real (Suc k) * d), Fin (euler_sum g x0 d (g x0) (Suc k)))"
    by (rule euler_state_Fin [of ev eq g, OF assms(1)])
  then have "estep_y_after (euler_step_at ev eq (Fin d) 1 (Fin x0) (Fin (g x0)) k) =
               Fin (euler_sum g x0 d (g x0) (Suc k))"
    by (simp only: euler_step_at_sel euler_state_snd_Suc [symmetric] snd_conv)
  with assms show ?thesis
    by (simp add: euler_steps_method)
qed

subsection \<open>Properties of \<open>eulerMethod\<close>\<close>

text \<open>C7: the step invariant of the spec (section 8): the trace has exactly
  \<open>steps\<close> step records, numbered \<open>1..steps\<close>; each starts where the
  previous one ended, the first at \<open>x0\<close>; each advances \<open>x\<close> by \<open>h\<close>, and
  its slope is the evaluation at its start.\<close>

theorem eulerMethod_step_structure:
  "let ss = euler_steps (eulerMethod ev eq x0 h n)
   in length ss = n \<and> map estep_index ss = [1..<Suc n] \<and>
      (0 < n \<longrightarrow> estep_x (ss ! 0) = x0) \<and>
      (\<forall>k<n. estep_x_after (ss ! k) = estep_x (ss ! k) + h \<and>
             estep_slope (ss ! k) = ev eq (estep_x (ss ! k))) \<and>
      (\<forall>k. Suc k < n \<longrightarrow> estep_x (ss ! Suc k) = estep_x_after (ss ! k))"
proof -
  define ss where "ss = euler_steps (eulerMethod ev eq x0 h n)"
  have ss: "ss = map (euler_step_at ev eq h 1 x0 (ev eq x0)) [0..<n]"
    by (simp add: ss_def euler_steps_method)
  have "map estep_index ss = map (\<lambda>k. Suc k) [0..<n]"
    by (simp add: ss comp_def)
  also have "\<dots> = [1..<Suc n]"
    by (simp add: map_Suc_upt)
  finally have idx: "map estep_index ss = [1..<Suc n]" .
  have "length ss = n \<and> map estep_index ss = [1..<Suc n] \<and>
      (0 < n \<longrightarrow> estep_x (ss ! 0) = x0) \<and>
      (\<forall>k<n. estep_x_after (ss ! k) = estep_x (ss ! k) + h \<and>
             estep_slope (ss ! k) = ev eq (estep_x (ss ! k))) \<and>
      (\<forall>k. Suc k < n \<longrightarrow> estep_x (ss ! Suc k) = estep_x_after (ss ! k))"
    using idx by (simp add: ss euler_state_fst_Suc)
  then show ?thesis by (simp add: ss_def Let_def)
qed

text \<open>C8: the update of \<open>y\<close>: the value after each step is the value before
  it (the initial \<open>f(x0)\<close> for the first step) plus \<open>h\<close> times the step's
  slope.\<close>

theorem eulerMethod_y_update:
  assumes "k < n"
  shows "estep_y_after (euler_steps (eulerMethod ev eq x0 h n) ! k) =
           (if k = 0 then ev eq x0
            else estep_y_after (euler_steps (eulerMethod ev eq x0 h n) ! (k - 1))) +
           h * estep_slope (euler_steps (eulerMethod ev eq x0 h n) ! k)"
proof (cases k)
  case 0
  with assms show ?thesis by (simp add: euler_steps_method)
next
  case (Suc j)
  with assms show ?thesis by (simp add: euler_steps_method euler_state_snd_Suc)
qed

text \<open>C9: on finite values Euler's method computes the left Riemann sum: if the
  expression denotes the real function \<open>g\<close> at every finite point, then with
  a finite step \<open>d\<close> the \<open>k\<close>-th step starts at \<open>x0 + k d\<close> and ends with
  \<open>y = g x0 + d * (\<Sum>j\<le>k. g (x0 + j d))\<close>.\<close>

theorem eulerMethod_riemann_sum:
  assumes "\<forall>t. ev eq (Fin t) = Fin (g t)"
  shows "euler_steps (eulerMethod ev eq (Fin x0) (Fin d) n) =
           map (\<lambda>k. EulerStep (Suc k) (Fin (x0 + real k * d)) (Fin (g (x0 + real k * d)))
                      (Fin (x0 + real (Suc k) * d)) (Fin (euler_sum g x0 d (g x0) (Suc k))))
               [0..<n]"
proof -
  have "euler_step_at ev eq (Fin d) 1 (Fin x0) (ev eq (Fin x0)) k =
          EulerStep (Suc k) (Fin (x0 + real k * d)) (Fin (g (x0 + real k * d)))
            (Fin (x0 + real (Suc k) * d)) (Fin (euler_sum g x0 d (g x0) (Suc k)))" for k
    using assms euler_state_Fin [of ev eq g d k x0 "g x0"]
    by (simp add: euler_step_at_def euler_sum_def algebra_simps)
  then show ?thesis
    by (simp add: euler_steps_method)
qed

text \<open>C10: a step size that is not a number (the page passes
  \<open>parseFloat\<close> of the step-size field unchecked) makes every step end at
  \<open>x = NaN\<close> with \<open>y = NaN\<close>.\<close>

theorem eulerMethod_NaN_step_size:
  "\<forall>s \<in> set (euler_steps (eulerMethod ev eq x0 NaN n)).
     estep_x_after s = NaN \<and> estep_y_after s = NaN"
proof -
  have "estep_x_after (euler_step_at ev eq NaN 1 x0 (ev eq x0) k) = NaN \<and>
        estep_y_after (euler_step_at ev eq NaN 1 x0 (ev eq x0) k) = NaN" for k
    by simp
  then show ?thesis by (auto simp: euler_steps_method)
qed

text \<open>C11: undefined values propagate: once a step ends with \<open>y = NaN\<close>
  (the expression was undefined at a sampled point), every later step ends
  with \<open>y = NaN\<close> too.\<close>

theorem eulerMethod_NaN_propagates:
  assumes "estep_y_after (euler_steps (eulerMethod ev eq x0 h n) ! k) = NaN"
    and "k \<le> j" and "j < n"
  shows "estep_y_after (euler_steps (eulerMethod ev eq x0 h n) ! j) = NaN"
  using assms
proof (induction j)
  case 0
  then show ?case by simp
next
  case (Suc j)
  show ?case
  proof (cases "k = Suc j")
    case True
    with Suc.prems show ?thesis by simp
  next
    case False
    with Suc have "estep_y_after (euler_steps (eulerMethod ev eq x0 h n) ! j) = NaN" by simp
    with Suc.prems show ?thesis
      by (simp add: euler_steps_method euler_state_snd_Suc)
  qed
qed

end
