(* ===== verification/RungeKutta.thy ===== *)
theory RungeKutta
  imports Evaluator
begin

text \<open>
  The fourth-order Runge-Kutta method \<open>rungeKuttaMethod(eq, x0, h = 0.1,
  steps = 10)\<close> of \<open>src/index.js\<close> (lines 110--135).  The right-hand side of
  the differential equation is the expression itself, a function of \<open>x\<close>
  alone, so each step samples it at \<open>x\<close>, twice at \<open>x + 0.5 h\<close> and at
  \<open>x + h\<close>, and sets \<open>y := y + (k1 + 2 k2 + 2 k3 + k4) / 6\<close>.  The trace
  pieces are modelled as for Euler's method.

  \<open>rk_state\<close> is the state after \<open>k\<close> iterations; on finite values a step
  adds Simpson's rule for the integral of \<open>g\<close> over \<open>[x, x + d]\<close>, which is
  the integral itself when \<open>g\<close> is a polynomial of degree at most three.
\<close>

datatype rk_line =
    RKHeader
  | RKInitial jsnum jsnum
  | RKStep (rkstep_index: nat) (rkstep_k1: jsnum) (rkstep_k2: jsnum) (rkstep_k3: jsnum)
      (rkstep_k4: jsnum) (rkstep_x_after: jsnum) (rkstep_y_after: jsnum)

text \<open>The increment of one step, in the source's evaluation order
  \<open>((k1 + 2 k2) + 2 k3) + k4\<close>, divided by 6.\<close>

definition rk_increment :: "jsnum \<Rightarrow> jsnum \<Rightarrow> jsnum \<Rightarrow> jsnum \<Rightarrow> jsnum" where
  "rk_increment k1 k2 k3 k4 = (k1 + Fin 2 * k2 + Fin 2 * k3 + k4) / Fin 6"

fun rk_loop ::
  "'e evaluator \<Rightarrow> 'e \<Rightarrow> jsnum \<Rightarrow> nat \<Rightarrow> nat \<Rightarrow> jsnum \<Rightarrow> jsnum \<Rightarrow> rk_line list" where
  "rk_loop ev eq h i 0 x y = []"
| "rk_loop ev eq h i (Suc n) x y =
     (let k1 = h * ev eq x;
          k2 = h * ev eq (x + Fin 0.5 * h);
          k3 = h * ev eq (x + Fin 0.5 * h);
          k4 = h * ev eq (x + h);
          y' = y + rk_increment k1 k2 k3 k4;
          x' = x + h
      in RKStep i k1 k2 k3 k4 x' y' # rk_loop ev eq h (Suc i) n x' y')"

definition rungeKuttaMethod :: "'e evaluator \<Rightarrow> 'e \<Rightarrow> jsnum \<Rightarrow> jsnum \<Rightarrow> nat \<Rightarrow> rk_line list" where
  "rungeKuttaMethod ev eq x0 h steps =
     (let y = ev eq x0
      in RKHeader # RKInitial x0 y # rk_loop ev eq h 1 steps x0 y)"

definition rk_default_steps :: nat where
  "rk_default_steps = 10"

fun rk_steps :: "rk_line list \<Rightarrow> rk_line list" where
  "rk_steps [] = []"
| "rk_steps (RKStep i k1 k2 k3 k4 x' y' # ls) = RKStep i k1 k2 k3 k4 x' y' # rk_steps ls"
| "rk_steps (_ # ls) = rk_steps ls"

subsection \<open>The state after \<open>k\<close> iterations\<close>

definition rk_slopes :: "'e evaluator \<Rightarrow> 'e \<Rightarrow> jsnum \<Rightarrow> jsnum \<Rightarrow> jsnum \<times> jsnum \<times> jsnum \<times> jsnum" where
  "rk_slopes ev eq h x =
     (h * ev eq x, h * ev eq (x + Fin 0.5 * h), h * ev eq (x + Fin 0.5 * h), h * ev eq (x + h))"

definition rk_y_next :: "'e evaluator \<Rightarrow> 'e \<Rightarrow> jsnum \<Rightarrow> jsnum \<Rightarrow> jsnum \<Rightarrow> jsnum" where
  "rk_y_next ev eq h x y =
     (case rk_slopes ev eq h x of (k1, k2, k3, k4) \<Rightarrow> y + rk_increment k1 k2 k3 k4)"

fun rk_state :: "'e evaluator \<Rightarrow> 'e \<Rightarrow> jsnum \<Rightarrow> nat \<Rightarrow> jsnum \<Rightarrow> jsnum \<Rightarrow> jsnum \<times> jsnum" where
  "rk_state ev eq h 0 x y = (x, y)"
| "rk_state ev eq h (Suc k) x y = rk_state ev eq h k (x + h) (rk_y_next ev eq h x y)"

definition rk_step_at :: "'e evaluator \<Rightarrow> 'e \<Rightarrow> jsnum \<Rightarrow> nat \<Rightarrow> jsnum \<Rightarrow> jsnum \<Rightarrow> nat \<Rightarrow> rk_line" where
  "rk_step_at ev eq h i x y k =
     (case rk_state ev eq h k x y of
        (xk, yk) \<Rightarrow>
          (case rk_slopes ev eq h xk of
             (k1, k2, k3, k4) \<Rightarrow> RKStep (i + k) k1 k2 k3 k4 (xk + h) (rk_y_next ev eq h xk yk)))"

definition simpson :: "(real \<Rightarrow> real) \<Rightarrow> real \<Rightarrow> real \<Rightarrow> real" where
  "simpson g x d = d / 6 * (g x + 4 * g (x + d / 2) + g (x + d))"

definition rk_sum :: "(real \<Rightarrow> real) \<Rightarrow> real \<Rightarrow> real \<Rightarrow> real \<Rightarrow> nat \<Rightarrow> real" where
  "rk_sum g x0 d y0 k = y0 + (\<Sum>j<k. simpson g (x0 + real j * d) d)"

definition cubic :: "real \<Rightarrow> real \<Rightarrow> real \<Rightarrow> real \<Rightarrow> real \<Rightarrow> real" where
  "cubic c0 c1 c2 c3 t = c0 + c1 * t + c2 * t ^ 2 + c3 * t ^ 3"

definition cubic_integral :: "real \<Rightarrow> real \<Rightarrow> real \<Rightarrow> real \<Rightarrow> real \<Rightarrow> real" where
  "cubic_integral c0 c1 c2 c3 t = c0 * t + c1 * t ^ 2 / 2 + c2 * t ^ 3 / 3 + c3 * t ^ 4 / 4"

lemma rk_loop_closed:
  "rk_loop ev eq h i n x y = map (rk_step_at ev eq h i x y) [0..<n]"
proof (induction n arbitrary: i x y)
  case 0
  then show ?case by simp
next
  case (Suc n)
  have "rk_step_at ev eq h i x y \<circ> Suc = rk_step_at ev eq h (Suc i) (x + h) (rk_y_next ev eq h x y)"
    by (rule ext) (simp add: rk_step_at_def)
  with Suc show ?case
    by (simp add: upt_Suc_map_Suc rk_step_at_def rk_slopes_def rk_y_next_def Let_def del: upt_Suc)
qed

lemma rk_steps_loop [simp]: "rk_steps (rk_loop ev eq h i n x y) = rk_loop ev eq h i n x y"
  by (induction n arbitrary: i x y) (simp_all add: Let_def)

lemma rk_steps_method:
  "rk_steps (rungeKuttaMethod ev eq x0 h n) = map (rk_step_at ev eq h 1 x0 (ev eq x0)) [0..<n]"
  by (simp add: rungeKuttaMethod_def Let_def rk_loop_closed [symmetric])

lemma rk_state_Suc_outer:
  "rk_state ev eq h (Suc k) x y =
     (case rk_state ev eq h k x y of (xk, yk) \<Rightarrow> (xk + h, rk_y_next ev eq h xk yk))"
  by (induction k arbitrary: x y) simp_all

lemma rk_y_next_NaN [simp]: "rk_y_next ev eq h x NaN = NaN"
  by (simp add: rk_y_next_def split: prod.split)

lemma rk_state_y_NaN: "snd (rk_state ev eq h k x NaN) = NaN"
  by (induction k arbitrary: x) simp_all

lemma rk_y_next_NaN_step [simp]: "rk_y_next ev eq NaN x y = NaN"
  by (simp add: rk_y_next_def rk_slopes_def rk_increment_def)

lemma rk_state_NaN_step: "0 < k \<Longrightarrow> rk_state ev eq NaN k x y = (NaN, NaN)"
proof (induction k arbitrary: x y)
  case 0
  then show ?case by simp
next
  case (Suc k)
  show ?case
  proof (cases k)
    case 0
    then show ?thesis by simp
  next
    case (Suc k')
    with Suc.IH show ?thesis by simp
  qed
qed

subsection \<open>Finite values: Simpson's rule\<close>

lemma rk_y_next_Fin:
  assumes "\<forall>t. ev eq (Fin t) = Fin (g t)"
  shows "rk_y_next ev eq (Fin d) (Fin x) (Fin y) = Fin (y + simpson g x d)"
  using assms by (simp add: rk_y_next_def rk_slopes_def rk_increment_def simpson_def field_simps)

lemma rk_state_Fin:
  assumes "\<forall>t. ev eq (Fin t) = Fin (g t)"
  shows "rk_state ev eq (Fin d) k (Fin x) (Fin y) =
           (Fin (x + real k * d), Fin (rk_sum g x d y k))"
proof (induction k arbitrary: x y)
  case 0
  then show ?case by (simp add: rk_sum_def)
next
  case (Suc k)
  have shift: "x + d + real j * d = x + real (Suc j) * d" for j
    by (simp add: algebra_simps)
  have "y + simpson g x d + (\<Sum>j<k. simpson g (x + d + real j * d) d) =
        y + (\<Sum>j<Suc k. simpson g (x + real j * d) d)"
    by (simp only: shift sum_lessThan_Suc_front) simp
  with Suc show ?case
    by (simp add: rk_y_next_Fin [of ev eq g, OF assms] rk_sum_def algebra_simps)
qed

subsection \<open>Polynomials of degree at most three\<close>

lemma simpson_cubic:
  "simpson (cubic c0 c1 c2 c3) x d =
     cubic_integral c0 c1 c2 c3 (x + d) - cubic_integral c0 c1 c2 c3 x"
  unfolding simpson_def cubic_def cubic_integral_def
  by (simp add: field_simps power2_eq_square power3_eq_cube power4_eq_xxxx)

lemma rk_sum_cubic:
  "rk_sum (cubic c0 c1 c2 c3) x0 d y0 k =
     y0 + cubic_integral c0 c1 c2 c3 (x0 + real k * d) - cubic_integral c0 c1 c2 c3 x0"
proof -
  let ?G = "\<lambda>i. cubic_integral c0 c1 c2 c3 (x0 + real i * d)"
  have "(\<Sum>j<k. simpson (cubic c0 c1 c2 c3) (x0 + real j * d) d) = (\<Sum>j<k. ?G (Suc j) - ?G j)"
    by (simp add: simpson_cubic algebra_simps)
  also have "\<dots> = ?G k - ?G 0"
    by (rule sum_telescope_lessThan)
  finally show ?thesis by (simp add: rk_sum_def)
qed

subsection \<open>Reading the steps\<close>

lemma rk_state_fst_Suc [simp]:
  "fst (rk_state ev eq h (Suc k) x y) = fst (rk_state ev eq h k x y) + h"
  unfolding rk_state_Suc_outer by (simp split: prod.split)

lemma rk_state_snd_Suc [simp]:
  "snd (rk_state ev eq h (Suc k) x y) =
     rk_y_next ev eq h (fst (rk_state ev eq h k x y)) (snd (rk_state ev eq h k x y))"
  unfolding rk_state_Suc_outer by (simp split: prod.split)

declare rk_state.simps(2) [simp del]

lemma rk_step_at_sel [simp]:
  "rkstep_index (rk_step_at ev eq h i x y k) = i + k"
  "rkstep_k1 (rk_step_at ev eq h i x y k) = h * ev eq (fst (rk_state ev eq h k x y))"
  "rkstep_k2 (rk_step_at ev eq h i x y k) =
     h * ev eq (fst (rk_state ev eq h k x y) + Fin 0.5 * h)"
  "rkstep_k3 (rk_step_at ev eq h i x y k) =
     h * ev eq (fst (rk_state ev eq h k x y) + Fin 0.5 * h)"
  "rkstep_k4 (rk_step_at ev eq h i x y k) = h * ev eq (fst (rk_state ev eq h k x y) + h)"
  "rkstep_x_after (rk_step_at ev eq h i x y k) = fst (rk_state ev eq h k x y) + h"
  "rkstep_y_after (rk_step_at ev eq h i x y k) =
     rk_y_next ev eq h (fst (rk_state ev eq h k x y)) (snd (rk_state ev eq h k x y))"
  by (simp_all add: rk_step_at_def rk_slopes_def split: prod.split)

lemma rk_y_next_increment:
  "rk_y_next ev eq h x y =
     y + rk_increment (h * ev eq x) (h * ev eq (x + Fin 0.5 * h))
           (h * ev eq (x + Fin 0.5 * h)) (h * ev eq (x + h))"
  by (simp add: rk_y_next_def rk_slopes_def)

lemma rk_step_y_Fin:
  assumes "\<forall>t. ev eq (Fin t) = Fin (g t)" and "k < n"
  shows "rkstep_y_after (rk_steps (rungeKuttaMethod ev eq (Fin x0) (Fin d) n) ! k) =
           Fin (rk_sum g x0 d (g x0) (Suc k))"
proof -
  have "rk_state ev eq (Fin d) (Suc k) (Fin x0) (Fin (g x0)) =
          (Fin (x0 + real (Suc k) * d), Fin (rk_sum g x0 d (g x0) (Suc k)))"
    by (rule rk_state_Fin [of ev eq g, OF assms(1)])
  then have "rkstep_y_after (rk_step_at ev eq (Fin d) 1 (Fin x0) (Fin (g x0)) k) =
               Fin (rk_sum g x0 d (g x0) (Suc k))"
    by (simp only: rk_step_at_sel rk_state_snd_Suc [symmetric] snd_conv)
  with assms show ?thesis
    by (simp add: rk_steps_method)
qed

subsection \<open>Properties of \<open>rungeKuttaMethod\<close>\<close>

text \<open>C12: the step invariant: exactly \<open>steps\<close> records numbered
  \<open>1..steps\<close>; the first ends at \<open>x0 + h\<close> and each later one \<open>h\<close> after
  the previous; and, as the spec's open question notes, \<open>k2\<close> and \<open>k3\<close>
  are always equal because the slope does not depend on \<open>y\<close>.\<close>

theorem rungeKuttaMethod_step_structure:
  "let ss = rk_steps (rungeKuttaMethod ev eq x0 h n)
   in length ss = n \<and> map rkstep_index ss = [1..<Suc n] \<and>
      (0 < n \<longrightarrow> rkstep_x_after (ss ! 0) = x0 + h) \<and>
      (\<forall>k. Suc k < n \<longrightarrow> rkstep_x_after (ss ! Suc k) = rkstep_x_after (ss ! k) + h) \<and>
      (\<forall>k<n. rkstep_k2 (ss ! k) = rkstep_k3 (ss ! k))"
proof -
  define ss where "ss = rk_steps (rungeKuttaMethod ev eq x0 h n)"
  have ss: "ss = map (rk_step_at ev eq h 1 x0 (ev eq x0)) [0..<n]"
    by (simp add: ss_def rk_steps_method)
  have "map rkstep_index ss = map (\<lambda>k. Suc k) [0..<n]"
    by (simp add: ss comp_def)
  also have "\<dots> = [1..<Suc n]"
    by (simp add: map_Suc_upt)
  finally have idx: "map rkstep_index ss = [1..<Suc n]" .
  have "length ss = n \<and> map rkstep_index ss = [1..<Suc n] \<and>
      (0 < n \<longrightarrow> rkstep_x_after (ss ! 0) = x0 + h) \<and>
      (\<forall>k. Suc k < n \<longrightarrow> rkstep_x_after (ss ! Suc k) = rkstep_x_after (ss ! k) + h) \<and>
      (\<forall>k<n. rkstep_k2 (ss ! k) = rkstep_k3 (ss ! k))"
    using idx by (simp add: ss)
  then show ?thesis by (simp add: ss_def Let_def)
qed

text \<open>C13: the update of \<open>y\<close>: the value after each step is the value before
  it (the initial \<open>f(x0)\<close> for the first step) plus
  \<open>(k1 + 2 k2 + 2 k3 + k4) / 6\<close> of the step's own slopes.\<close>

theorem rungeKuttaMethod_y_update:
  assumes "k < n"
  shows "rkstep_y_after (rk_steps (rungeKuttaMethod ev eq x0 h n) ! k) =
           (if k = 0 then ev eq x0
            else rkstep_y_after (rk_steps (rungeKuttaMethod ev eq x0 h n) ! (k - 1))) +
           (rkstep_k1 (rk_steps (rungeKuttaMethod ev eq x0 h n) ! k) +
            Fin 2 * rkstep_k2 (rk_steps (rungeKuttaMethod ev eq x0 h n) ! k) +
            Fin 2 * rkstep_k3 (rk_steps (rungeKuttaMethod ev eq x0 h n) ! k) +
            rkstep_k4 (rk_steps (rungeKuttaMethod ev eq x0 h n) ! k)) / Fin 6"
proof (cases k)
  case 0
  with assms show ?thesis
    by (simp add: rk_steps_method rk_y_next_increment rk_increment_def del: rk_y_next_def)
next
  case (Suc j)
  with assms show ?thesis
    by (simp add: rk_steps_method rk_y_next_increment rk_increment_def)
qed

text \<open>C14: on finite values the method is the composite Simpson rule: if the
  expression denotes the real function \<open>g\<close> at every finite point, the
  \<open>k\<close>-th step ends at \<open>x0 + (k+1) d\<close> with
  \<open>y = g x0 + (\<Sum>j\<le>k. d/6 (g x_j + 4 g (x_j + d/2) + g (x_j + d)))\<close>.\<close>

theorem rungeKuttaMethod_simpson:
  assumes "\<forall>t. ev eq (Fin t) = Fin (g t)"
  shows "map (\<lambda>s. (rkstep_x_after s, rkstep_y_after s)) (rk_steps (rungeKuttaMethod ev eq (Fin x0) (Fin d) n)) =
           map (\<lambda>k. (Fin (x0 + real (Suc k) * d), Fin (rk_sum g x0 d (g x0) (Suc k)))) [0..<n]"
proof -
  have "rk_state ev eq (Fin d) (Suc k) (Fin x0) (Fin (g x0)) =
          (Fin (x0 + real (Suc k) * d), Fin (rk_sum g x0 d (g x0) (Suc k)))" for k
    by (rule rk_state_Fin [of ev eq g, OF assms])
  then have "(rkstep_x_after (rk_step_at ev eq (Fin d) 1 (Fin x0) (Fin (g x0)) k),
              rkstep_y_after (rk_step_at ev eq (Fin d) 1 (Fin x0) (Fin (g x0)) k)) =
             (Fin (x0 + real (Suc k) * d), Fin (rk_sum g x0 d (g x0) (Suc k)))" for k
    by (simp only: rk_step_at_sel rk_state_fst_Suc [symmetric] rk_state_snd_Suc [symmetric]
          prod.collapse)
  with assms show ?thesis
    by (simp add: rk_steps_method)
qed

text \<open>C15: the method is exact for right-hand sides that are polynomials of
  degree at most three: each step's \<open>y\<close> is \<open>f(x0)\<close> plus the integral of
  the polynomial from \<open>x0\<close> to the step's end point.\<close>

theorem rungeKuttaMethod_exact_cubic:
  assumes "\<forall>t. ev eq (Fin t) = Fin (cubic c0 c1 c2 c3 t)" and "k < n"
  shows "rkstep_y_after (rk_steps (rungeKuttaMethod ev eq (Fin x0) (Fin d) n) ! k) =
           Fin (cubic c0 c1 c2 c3 x0 + cubic_integral c0 c1 c2 c3 (x0 + real (Suc k) * d)
                - cubic_integral c0 c1 c2 c3 x0)"
  using rk_step_y_Fin [of ev eq "cubic c0 c1 c2 c3", OF assms] by (simp add: rk_sum_cubic)

text \<open>C16: a step size that is not a number makes every step end at
  \<open>x = NaN\<close> with \<open>y = NaN\<close>.\<close>

theorem rungeKuttaMethod_NaN_step_size:
  "\<forall>s \<in> set (rk_steps (rungeKuttaMethod ev eq x0 NaN n)).
     rkstep_x_after s = NaN \<and> rkstep_y_after s = NaN"
  by (auto simp: rk_steps_method)

text \<open>C17: undefined values propagate: once a step ends with \<open>y = NaN\<close>,
  every later step ends with \<open>y = NaN\<close>.\<close>

theorem rungeKuttaMethod_NaN_propagates:
  assumes "rkstep_y_after (rk_steps (rungeKuttaMethod ev eq x0 h n) ! k) = NaN"
    and "k \<le> j" and "j < n"
  shows "rkstep_y_after (rk_steps (rungeKuttaMethod ev eq x0 h n) ! j) = NaN"
  using assms
proof (induction j)
  case 0
  then show ?case by simp
next
  case (Suc j)
  show ?case
  proof (cases "k = Suc j")
    case True
    with Suc.prems show ?thesis by simp
  next
    case False
    with Suc have "rkstep_y_after (rk_steps (rungeKuttaMethod ev eq x0 h n) ! j) = NaN" by simp
    with Suc.prems show ?thesis
      by (simp add: rk_steps_method)
  qed
qed

end
