(* ===== verification/UI.thy ===== *)
theory UI
  imports NewtonRaphson Euler RungeKutta
begin

text \<open>
  The page controller of \<open>src/index.js\<close>: the global \<open>method\<close> (line 10, the field \<open>selected_method\<close>),
  the three method buttons (lines 16--27), \<open>displayMessage\<close> (lines 30--32)
  and the solve handler (lines 35--60).  Its state is the selected method
  (a string, as in the source) and the content of the output element; an
  event is a click.  The solve click reads the three input fields as strings;
  \<open>parseFloat\<close> comes from the runtime record \<open>js_env\<close>.  \<open>ui_step\<close> is the
  step function, \<open>ui_run\<close> runs a list of clicks, and \<open>ui_reachable\<close> is the
  set of states reachable from page load by any sequence of clicks.
\<close>

datatype display =
    Blank
  | Message string
  | RawHtml string
  | NRTrace "nr_line list"
  | EulerTrace "euler_line list"
  | RKTrace "rk_line list"

record ui_state =
  selected_method :: string
  outputDiv :: display

definition ui_init :: ui_state where
  "ui_init = \<lparr>selected_method = ''newtonRaphson'', outputDiv = Blank\<rparr>"

datatype ui_event =
    ClickNewtonRaphson
  | ClickEuler
  | ClickRungeKutta
  | ClickSolve string string string

text \<open>\<open>displayMessage(message)\<close> sets the output to \<open><p>message</p>\<close>.\<close>

definition displayMessage :: "string \<Rightarrow> ui_state \<Rightarrow> ui_state" where
  "displayMessage msg s = s\<lparr>outputDiv := Message msg\<rparr>"

text \<open>The solve handler.  The guard is the source's
  \<open>!equation || isNaN(initialValue)\<close>; the step size is passed on unchecked,
  and the \<open>switch\<close> falls back to a plain message for an unknown method.\<close>

definition solve_click :: "js_env \<Rightarrow> ui_state \<Rightarrow> string \<Rightarrow> string \<Rightarrow> string \<Rightarrow> ui_state" where
  "solve_click E s equation initialText stepText =
     (let initialValue = parse_float E initialText;
          stepSize = parse_float E stepText
      in if equation = [] \<or> initialValue = NaN
         then displayMessage ''Please enter valid equation and initial value.'' s
         else s\<lparr>outputDiv :=
           (if selected_method s = ''newtonRaphson''
            then NRTrace (newtonRaphson (evaluateFunction E) equation initialValue
                            nr_default_maxIter nr_default_tol)
            else if selected_method s = ''euler''
            then EulerTrace (eulerMethod (evaluateFunction E) equation initialValue stepSize
                               euler_default_steps)
            else if selected_method s = ''rungeKutta''
            then RKTrace (rungeKuttaMethod (evaluateFunction E) equation initialValue stepSize
                            rk_default_steps)
            else RawHtml ''Please select a method.'')\<rparr>)"

fun ui_step :: "js_env \<Rightarrow> ui_state \<Rightarrow> ui_event \<Rightarrow> ui_state" where
  "ui_step E s ClickNewtonRaphson =
     displayMessage ''Newton-Raphson method selected.'' (s\<lparr>selected_method := ''newtonRaphson''\<rparr>)"
| "ui_step E s ClickEuler =
     displayMessage ''Euler's method selected.'' (s\<lparr>selected_method := ''euler''\<rparr>)"
| "ui_step E s ClickRungeKutta =
     displayMessage ''Runge-Kutta method selected.'' (s\<lparr>selected_method := ''rungeKutta''\<rparr>)"
| "ui_step E s (ClickSolve equation initialText stepText) =
     solve_click E s equation initialText stepText"

fun ui_run :: "js_env \<Rightarrow> ui_state \<Rightarrow> ui_event list \<Rightarrow> ui_state" where
  "ui_run E s [] = s"
| "ui_run E s (e # es) = ui_run E (ui_step E s e) es"

text \<open>The method a click selects, if it is a method button.\<close>

fun button_method :: "ui_event \<Rightarrow> string option" where
  "button_method ClickNewtonRaphson = Some ''newtonRaphson''"
| "button_method ClickEuler = Some ''euler''"
| "button_method ClickRungeKutta = Some ''rungeKutta''"
| "button_method (ClickSolve _ _ _) = None"

inductive ui_reachable :: "js_env \<Rightarrow> ui_state \<Rightarrow> bool" where
  load: "ui_reachable E ui_init"
| click: "ui_reachable E s \<Longrightarrow> ui_reachable E (ui_step E s e)"

inductive_cases ui_reachable_cases: "ui_reachable E s"

definition valid_method :: "string \<Rightarrow> bool" where
  "valid_method m \<longleftrightarrow> m = ''newtonRaphson'' \<or> m = ''euler'' \<or> m = ''rungeKutta''"

definition ui_inv :: "ui_state \<Rightarrow> bool" where
  "ui_inv s \<longleftrightarrow> valid_method (selected_method s) \<and> outputDiv s \<noteq> RawHtml ''Please select a method.''"

subsection \<open>The invariant\<close>

lemma ui_inv_init: "ui_inv ui_init"
  by (simp add: ui_inv_def ui_init_def valid_method_def)

lemma solve_click_method [simp]: "selected_method (solve_click E s eqn a b) = selected_method s"
  by (simp add: solve_click_def displayMessage_def Let_def)

lemma ui_step_inv: "ui_inv s \<Longrightarrow> ui_inv (ui_step E s e)"
  by (cases e) (auto simp: ui_inv_def valid_method_def displayMessage_def solve_click_def Let_def)

lemma ui_reachable_inv: "ui_reachable E s \<Longrightarrow> ui_inv s"
proof (induction rule: ui_reachable.induct)
  case load
  show ?case by (rule ui_inv_init)
next
  case (click E s e)
  then show ?case by (simp add: ui_step_inv)
qed

lemma ui_run_reachable: "ui_reachable E s \<Longrightarrow> ui_reachable E (ui_run E s es)"
  by (induction es arbitrary: s) (auto intro: ui_reachable.click)

lemma ui_solve_guard:
  "parse_float E initialText \<noteq> NaN \<Longrightarrow> equation \<noteq> [] \<Longrightarrow>
   outputDiv (solve_click E s equation initialText stepText) =
     (if selected_method s = ''newtonRaphson''
      then NRTrace (newtonRaphson (evaluateFunction E) equation (parse_float E initialText)
                      nr_default_maxIter nr_default_tol)
      else if selected_method s = ''euler''
      then EulerTrace (eulerMethod (evaluateFunction E) equation (parse_float E initialText)
                         (parse_float E stepText) euler_default_steps)
      else if selected_method s = ''rungeKutta''
      then RKTrace (rungeKuttaMethod (evaluateFunction E) equation (parse_float E initialText)
                      (parse_float E stepText) rk_default_steps)
      else RawHtml ''Please select a method.'')"
  by (simp add: solve_click_def Let_def)

lemma ui_step_method:
  "selected_method (ui_step E s e) = (case button_method e of None \<Rightarrow> selected_method s | Some m \<Rightarrow> m)"
  by (cases e) (simp_all add: displayMessage_def)

subsection \<open>Properties of the controller\<close>

text \<open>C18: in every state reachable from page load, the selected method is one
  of the three the solver knows, so the \<open>default\<close> branch of the solve
  handler's \<open>switch\<close> ("Please select a method.") is never shown.\<close>

theorem ui_reachable_invariant:
  assumes "ui_reachable E s"
  shows "valid_method (selected_method s) \<and> outputDiv s \<noteq> RawHtml ''Please select a method.''"
  using ui_reachable_inv [OF assms] by (simp add: ui_inv_def)

text \<open>C19: a solve click with an empty equation or an initial value that
  \<open>parseFloat\<close> reads as NaN only shows the validation message: the selected
  method is kept and no method runs.\<close>

theorem ui_solve_rejects_invalid:
  assumes "equation = [] \<or> parse_float E initialText = NaN"
  shows "ui_step E s (ClickSolve equation initialText stepText) =
           s\<lparr>outputDiv := Message ''Please enter valid equation and initial value.''\<rparr>"
  using assms by (auto simp: solve_click_def displayMessage_def Let_def)

text \<open>C20: from a reachable state, a valid solve click shows the trace of the
  selected method, run through \<open>evaluateFunction\<close> with the source's
  defaults: Newton-Raphson with 10 iterations and tolerance \<open>1e-6\<close>, the two
  integrators with 10 steps of the parsed (unchecked) step size.\<close>

theorem ui_solve_dispatch:
  assumes "ui_reachable E s" and "equation \<noteq> []" and "parse_float E initialText \<noteq> NaN"
  shows "outputDiv (ui_step E s (ClickSolve equation initialText stepText)) =
           (if selected_method s = ''newtonRaphson''
            then NRTrace (newtonRaphson (evaluateFunction E) equation (parse_float E initialText)
                            10 (Fin 0.000001))
            else if selected_method s = ''euler''
            then EulerTrace (eulerMethod (evaluateFunction E) equation (parse_float E initialText)
                               (parse_float E stepText) 10)
            else RKTrace (rungeKuttaMethod (evaluateFunction E) equation (parse_float E initialText)
                            (parse_float E stepText) 10))"
proof -
  from ui_reachable_inv [OF assms(1)] have "valid_method (selected_method s)"
    by (simp add: ui_inv_def)
  with assms(2,3) show ?thesis
    by (auto simp: ui_solve_guard valid_method_def nr_default_maxIter_def nr_default_tol_def
                   euler_default_steps_def rk_default_steps_def)
qed

text \<open>C21: clicks are processed in order and the method used by a solve is the
  one of the last method button clicked before it (or the default
  Newton-Raphson when none was).\<close>

theorem ui_run_method_last_button:
  "selected_method (ui_run E s es) = last (selected_method s # List.map_filter button_method es)"
proof (induction es arbitrary: s)
  case Nil
  then show ?case by simp
next
  case (Cons e es)
  then show ?case
    by (cases "button_method e") (simp_all add: ui_step_method List.map_filter_simps)
qed

end
