(* ===== verification/Examples.thy ===== *)
theory Examples
  imports UI
begin

text \<open>
  Concrete instances used by the witnesses.  The fixtures instantiate the
  evaluator interface with \<open>'e = jsnum \<Rightarrow> jsnum\<close>: an expression
  handle is a function composed of the JavaScript number operations, applied
  directly, not a text run through \<open>evaluateFunction\<close>.  (On the page,
  the text \<open>x^2 + 1\<close> is not the function \<open>sq_plus_one\<close>: the textual
  substitution makes mathjs read \<open>-0.00001^2 + 1\<close> at a negative sample.)
  A small runtime \<open>test_env\<close> instantiates \<open>js_env\<close> for the controller.
  The computations below evaluate the Newton specification on two fixtures
  in exact arithmetic; they discharge the hypotheses of the witnesses.
\<close>

definition apply_expr :: "(jsnum \<Rightarrow> jsnum) evaluator" where
  "apply_expr g x = g x"

definition sq_minus_two :: "jsnum \<Rightarrow> jsnum" where
  "sq_minus_two x = x * x - Fin 2"

definition sq_plus_one :: "jsnum \<Rightarrow> jsnum" where
  "sq_plus_one x = x * x + Fin 1"

definition ident :: "jsnum \<Rightarrow> jsnum" where
  "ident x = x"

definition undefined_expr :: "jsnum \<Rightarrow> jsnum" where
  "undefined_expr x = NaN"

definition test_env :: js_env where
  "test_env =
     \<lparr>math_evaluate = (\<lambda>s. if s = ''2'' then Some (Fin 2) else None),
      num_to_string = (\<lambda>x. ''1''),
      parse_float = (\<lambda>s. if s = ''1'' then Fin 1 else NaN)\<rparr>"

lemmas example_eval =
  nr_spec_Suc nr_first_Suc nr_count_Suc nr_converged_def nr_step_def
  derivative_def deriv_h_def apply_expr_def Let_def

subsection \<open>Computations\<close>

lemmas example_defaults = nr_default_maxIter_def nr_default_tol_def

lemma nr_sqrt2_spec:
  "nr_spec apply_expr sq_minus_two (Fin 1) nr_default_maxIter nr_default_tol =
     Converged (Fin (665857 / 470832))"
  by (simp add: example_eval example_defaults sq_minus_two_def numeral_eq_Suc)

lemma nr_no_root_spec:
  "nr_spec apply_expr sq_plus_one (Fin 1) nr_default_maxIter nr_default_tol = Exhausted NaN"
  by (simp add: example_eval example_defaults sq_plus_one_def numeral_eq_Suc)

lemma nr_no_root_first3: "nr_first apply_expr sq_plus_one nr_default_tol (Fin 1) 3 = None"
  by (simp add: example_eval example_defaults sq_plus_one_def numeral_eq_Suc)

lemma nr_no_root_iterate3: "nr_iterate apply_expr sq_plus_one (Fin 1) 3 = NaN"
  by (simp add: example_eval sq_plus_one_def numeral_eq_Suc)

lemma nr_result_newtonRaphson:
  "nr_result (newtonRaphson ev eq x0 m tol) = nr_result (nr_loop ev eq m tol 0 m x0)"
  by (simp add: newtonRaphson_def nr_result_Cons)

subsection \<open>Witnesses\<close>

text \<open>Each property with a hypothesis applied at a concrete input where the
  hypothesis holds.\<close>

theorem newtonRaphson_root_sound_witness:
  "nr_result (newtonRaphson apply_expr sq_minus_two (Fin 1) nr_default_maxIter nr_default_tol) =
     Some (Converged (Fin (665857 / 470832))) \<and>
   \<bar>apply_expr sq_minus_two (Fin (665857 / 470832))\<bar> < nr_default_tol \<and>
   Fin (665857 / 470832) \<in> set (nr_xs (newtonRaphson apply_expr sq_minus_two (Fin 1)
                                         nr_default_maxIter nr_default_tol))"
proof -
  have h: "nr_result (newtonRaphson apply_expr sq_minus_two (Fin 1) nr_default_maxIter nr_default_tol) =
             Some (Converged (Fin (665857 / 470832)))"
    by (simp only: nr_result_newtonRaphson nr_loop_result nr_sqrt2_spec)
  show ?thesis using h newtonRaphson_root_sound [OF h] by blast
qed

theorem newtonRaphson_exhausted_witness:
  "nr_result (newtonRaphson apply_expr sq_plus_one (Fin 1) nr_default_maxIter nr_default_tol) =
     Some (Exhausted NaN) \<and>
   length (nr_xs (newtonRaphson apply_expr sq_plus_one (Fin 1) nr_default_maxIter nr_default_tol)) =
     nr_default_maxIter \<and>
   NaN = nr_iterate apply_expr sq_plus_one (Fin 1) nr_default_maxIter"
proof -
  have h: "nr_result (newtonRaphson apply_expr sq_plus_one (Fin 1) nr_default_maxIter nr_default_tol) =
             Some (Exhausted NaN)"
    by (simp only: nr_result_newtonRaphson nr_loop_result nr_no_root_spec)
  show ?thesis using h newtonRaphson_exhausted [OF h] by blast
qed

theorem newtonRaphson_NaN_absorbing_witness:
  "apply_expr sq_plus_one NaN = NaN \<and> nr_iterate apply_expr sq_plus_one (Fin 1) 3 = NaN \<and>
   3 \<le> nr_default_maxIter \<and> nr_first apply_expr sq_plus_one nr_default_tol (Fin 1) 3 = None \<and>
   nr_result (newtonRaphson apply_expr sq_plus_one (Fin 1) nr_default_maxIter nr_default_tol) =
     Some (Exhausted NaN)"
proof -
  have a: "apply_expr sq_plus_one NaN = NaN"
    by (simp add: apply_expr_def sq_plus_one_def)
  have b: "(3::nat) \<le> nr_default_maxIter"
    by (simp add: nr_default_maxIter_def)
  show ?thesis
    using a b nr_no_root_iterate3 nr_no_root_first3
      newtonRaphson_NaN_absorbing [OF a nr_no_root_iterate3 b nr_no_root_first3]
    by blast
qed

theorem nr_step_flat_tangent_witness:
  "apply_expr sq_plus_one (Fin 0) = Fin 1 \<and> (1::real) \<noteq> 0 \<and>
   derivative apply_expr sq_plus_one (Fin 0) deriv_h = Fin 0 \<and>
   nr_step apply_expr sq_plus_one (Fin 0) = NInf"
proof -
  have a: "apply_expr sq_plus_one (Fin 0) = Fin 1"
    by (simp add: apply_expr_def sq_plus_one_def)
  have d: "derivative apply_expr sq_plus_one (Fin 0) deriv_h = Fin 0"
    by (simp add: derivative_def deriv_h_def apply_expr_def sq_plus_one_def)
  have "nr_step apply_expr sq_plus_one (Fin 0) = (if (0::real) < 1 then NInf else PInf)"
    using nr_step_flat_tangent [OF a _ d] by simp
  with a d show ?thesis by simp
qed

theorem eulerMethod_step_structure_witness:
  "length (euler_steps (eulerMethod apply_expr ident (Fin 0) (Fin 0.1) 2)) = 2 \<and>
   estep_x (euler_steps (eulerMethod apply_expr ident (Fin 0) (Fin 0.1) 2) ! 0) = Fin 0 \<and>
   estep_x_after (euler_steps (eulerMethod apply_expr ident (Fin 0) (Fin 0.1) 2) ! 0) =
     estep_x (euler_steps (eulerMethod apply_expr ident (Fin 0) (Fin 0.1) 2) ! 0) + Fin 0.1 \<and>
   estep_x (euler_steps (eulerMethod apply_expr ident (Fin 0) (Fin 0.1) 2) ! 1) =
     estep_x_after (euler_steps (eulerMethod apply_expr ident (Fin 0) (Fin 0.1) 2) ! 0)"
  using eulerMethod_step_structure [of apply_expr ident "Fin 0" "Fin 0.1" 2]
  by (simp add: Let_def)

theorem eulerMethod_y_update_witness:
  "(1::nat) < 2 \<and>
   estep_y_after (euler_steps (eulerMethod apply_expr ident (Fin 0) (Fin 0.1) 2) ! 1) =
     estep_y_after (euler_steps (eulerMethod apply_expr ident (Fin 0) (Fin 0.1) 2) ! 0) +
     Fin 0.1 * estep_slope (euler_steps (eulerMethod apply_expr ident (Fin 0) (Fin 0.1) 2) ! 1)"
  using eulerMethod_y_update [of 1 2 apply_expr ident "Fin 0" "Fin 0.1"] by simp

lemma ident_denotes_id: "\<forall>t. apply_expr ident (Fin t) = Fin (id t)"
  by (simp add: apply_expr_def ident_def)

theorem eulerMethod_riemann_sum_witness:
  "(\<forall>t. apply_expr ident (Fin t) = Fin (id t)) \<and>
   euler_steps (eulerMethod apply_expr ident (Fin 0) (Fin 0.1) 3) =
     map (\<lambda>k. EulerStep (Suc k) (Fin (0 + real k * 0.1)) (Fin (id (0 + real k * 0.1)))
                (Fin (0 + real (Suc k) * 0.1)) (Fin (euler_sum id 0 0.1 (id 0) (Suc k)))) [0..<3]"
  using ident_denotes_id eulerMethod_riemann_sum [of apply_expr ident id 0 "0.1" 3, OF ident_denotes_id]
  by blast

theorem eulerMethod_NaN_step_size_witness:
  "length (euler_steps (eulerMethod apply_expr ident (Fin 0) NaN 2)) = 2 \<and>
   estep_x_after (euler_steps (eulerMethod apply_expr ident (Fin 0) NaN 2) ! 1) = NaN \<and>
   estep_y_after (euler_steps (eulerMethod apply_expr ident (Fin 0) NaN 2) ! 1) = NaN"
proof -
  have l: "length (euler_steps (eulerMethod apply_expr ident (Fin 0) NaN 2)) = 2"
    by (simp add: euler_steps_method)
  then have "euler_steps (eulerMethod apply_expr ident (Fin 0) NaN 2) ! 1 \<in>
               set (euler_steps (eulerMethod apply_expr ident (Fin 0) NaN 2))"
    by (simp add: nth_mem)
  with l eulerMethod_NaN_step_size [of apply_expr ident "Fin 0" 2] show ?thesis by blast
qed

theorem eulerMethod_NaN_propagates_witness:
  "estep_y_after (euler_steps (eulerMethod apply_expr ident (Fin 0) NaN 2) ! 0) = NaN \<and>
   (0::nat) \<le> 1 \<and> (1::nat) < 2 \<and>
   estep_y_after (euler_steps (eulerMethod apply_expr ident (Fin 0) NaN 2) ! 1) = NaN"
proof -
  have h: "estep_y_after (euler_steps (eulerMethod apply_expr ident (Fin 0) NaN 2) ! 0) = NaN"
    by (simp add: euler_steps_method)
  show ?thesis using h eulerMethod_NaN_propagates [OF h, of 1] by simp
qed

theorem rungeKuttaMethod_step_structure_witness:
  "length (rk_steps (rungeKuttaMethod apply_expr ident (Fin 0) (Fin 0.1) 2)) = 2 \<and>
   rkstep_x_after (rk_steps (rungeKuttaMethod apply_expr ident (Fin 0) (Fin 0.1) 2) ! 0) = Fin 0 + Fin 0.1 \<and>
   rkstep_x_after (rk_steps (rungeKuttaMethod apply_expr ident (Fin 0) (Fin 0.1) 2) ! 1) =
     rkstep_x_after (rk_steps (rungeKuttaMethod apply_expr ident (Fin 0) (Fin 0.1) 2) ! 0) + Fin 0.1 \<and>
   rkstep_k2 (rk_steps (rungeKuttaMethod apply_expr ident (Fin 0) (Fin 0.1) 2) ! 1) =
     rkstep_k3 (rk_steps (rungeKuttaMethod apply_expr ident (Fin 0) (Fin 0.1) 2) ! 1)"
  using rungeKuttaMethod_step_structure [of apply_expr ident "Fin 0" "Fin 0.1" 2]
  by (simp add: Let_def)

theorem rungeKuttaMethod_y_update_witness:
  "(1::nat) < 2 \<and>
   rkstep_y_after (rk_steps (rungeKuttaMethod apply_expr ident (Fin 0) (Fin 0.1) 2) ! 1) =
     rkstep_y_after (rk_steps (rungeKuttaMethod apply_expr ident (Fin 0) (Fin 0.1) 2) ! 0) +
     (rkstep_k1 (rk_steps (rungeKuttaMethod apply_expr ident (Fin 0) (Fin 0.1) 2) ! 1) +
      Fin 2 * rkstep_k2 (rk_steps (rungeKuttaMethod apply_expr ident (Fin 0) (Fin 0.1) 2) ! 1) +
      Fin 2 * rkstep_k3 (rk_steps (rungeKuttaMethod apply_expr ident (Fin 0) (Fin 0.1) 2) ! 1) +
      rkstep_k4 (rk_steps (rungeKuttaMethod apply_expr ident (Fin 0) (Fin 0.1) 2) ! 1)) / Fin 6"
  using rungeKuttaMethod_y_update [of 1 2 apply_expr ident "Fin 0" "Fin 0.1"] by simp

theorem rungeKuttaMethod_simpson_witness:
  "(\<forall>t. apply_expr ident (Fin t) = Fin (id t)) \<and>
   map (\<lambda>s. (rkstep_x_after s, rkstep_y_after s))
       (rk_steps (rungeKuttaMethod apply_expr ident (Fin 0) (Fin 0.1) 3)) =
     map (\<lambda>k. (Fin (0 + real (Suc k) * 0.1), Fin (rk_sum id 0 0.1 (id 0) (Suc k)))) [0..<3]"
  using ident_denotes_id rungeKuttaMethod_simpson [of apply_expr ident id 0 "0.1" 3, OF ident_denotes_id]
  by blast

lemma ident_denotes_cubic: "\<forall>t. apply_expr ident (Fin t) = Fin (cubic 0 1 0 0 t)"
  by (simp add: apply_expr_def ident_def cubic_def)

theorem rungeKuttaMethod_exact_cubic_witness:
  "(\<forall>t. apply_expr ident (Fin t) = Fin (cubic 0 1 0 0 t)) \<and> (9::nat) < 10 \<and>
   rkstep_y_after (rk_steps (rungeKuttaMethod apply_expr ident (Fin 0) (Fin 0.1) 10) ! 9) =
     Fin (cubic 0 1 0 0 0 + cubic_integral 0 1 0 0 (0 + real (Suc 9) * 0.1) - cubic_integral 0 1 0 0 0)"
  using ident_denotes_cubic
    rungeKuttaMethod_exact_cubic [of apply_expr ident 0 1 0 0 9 10 0 "0.1", OF ident_denotes_cubic]
  by simp

theorem rungeKuttaMethod_NaN_step_size_witness:
  "length (rk_steps (rungeKuttaMethod apply_expr ident (Fin 0) NaN 2)) = 2 \<and>
   rkstep_x_after (rk_steps (rungeKuttaMethod apply_expr ident (Fin 0) NaN 2) ! 1) = NaN \<and>
   rkstep_y_after (rk_steps (rungeKuttaMethod apply_expr ident (Fin 0) NaN 2) ! 1) = NaN"
proof -
  have l: "length (rk_steps (rungeKuttaMethod apply_expr ident (Fin 0) NaN 2)) = 2"
    by (simp add: rk_steps_method)
  then have "rk_steps (rungeKuttaMethod apply_expr ident (Fin 0) NaN 2) ! 1 \<in>
               set (rk_steps (rungeKuttaMethod apply_expr ident (Fin 0) NaN 2))"
    by (simp add: nth_mem)
  with l rungeKuttaMethod_NaN_step_size [of apply_expr ident "Fin 0" 2] show ?thesis by blast
qed

theorem rungeKuttaMethod_NaN_propagates_witness:
  "rkstep_y_after (rk_steps (rungeKuttaMethod apply_expr ident (Fin 0) NaN 2) ! 0) = NaN \<and>
   (0::nat) \<le> 1 \<and> (1::nat) < 2 \<and>
   rkstep_y_after (rk_steps (rungeKuttaMethod apply_expr ident (Fin 0) NaN 2) ! 1) = NaN"
proof -
  have h: "rkstep_y_after (rk_steps (rungeKuttaMethod apply_expr ident (Fin 0) NaN 2) ! 0) = NaN"
    by (simp add: rk_steps_method)
  show ?thesis using h rungeKuttaMethod_NaN_propagates [OF h, of 1] by simp
qed

lemma test_reachable: "ui_reachable test_env (ui_step test_env ui_init ClickEuler)"
  by (rule ui_reachable.click [OF ui_reachable.load])

theorem ui_reachable_invariant_witness:
  "ui_reachable test_env (ui_step test_env ui_init ClickEuler) \<and>
   valid_method (selected_method (ui_step test_env ui_init ClickEuler)) \<and>
   outputDiv (ui_step test_env ui_init ClickEuler) \<noteq> RawHtml ''Please select a method.''"
  using test_reachable ui_reachable_invariant [OF test_reachable] by blast

theorem ui_solve_rejects_invalid_witness:
  "([] = [] \<or> parse_float test_env ''1'' = NaN) \<and>
   ui_step test_env ui_init (ClickSolve [] ''1'' ''0.1'') =
     ui_init\<lparr>outputDiv := Message ''Please enter valid equation and initial value.''\<rparr>"
  using ui_solve_rejects_invalid [of "[]" test_env "''1''" ui_init "''0.1''"] by simp

theorem ui_solve_dispatch_witness:
  "ui_reachable test_env ui_init \<and> ''2'' \<noteq> [] \<and> parse_float test_env ''1'' \<noteq> NaN \<and>
   outputDiv (ui_step test_env ui_init (ClickSolve ''2'' ''1'' ''1'')) =
     NRTrace (newtonRaphson (evaluateFunction test_env) ''2'' (parse_float test_env ''1'')
                10 (Fin 0.000001))"
proof -
  have p: "parse_float test_env ''1'' \<noteq> NaN"
    by (simp add: test_env_def)
  have e: "''2'' \<noteq> []" by simp
  have "outputDiv (ui_step test_env ui_init (ClickSolve ''2'' ''1'' ''1'')) =
          NRTrace (newtonRaphson (evaluateFunction test_env) ''2'' (parse_float test_env ''1'')
                     10 (Fin 0.000001))"
    using ui_solve_dispatch [OF ui_reachable.load e p, of "''1''"] by (simp add: ui_init_def)
  with p e ui_reachable.load show ?thesis by blast
qed

theorem replace_all_x_removes_x_witness:
  "CHR ''x'' \<notin> set ''2'' \<and> CHR ''x'' \<notin> set (replace_all_x ''exp(x)'' ''2'')"
proof -
  have h: "CHR ''x'' \<notin> set ''2''" by simp
  show ?thesis using h replace_all_x_removes_x [OF h, of "''exp(x)''"] by blast
qed

theorem derivative_NaN_witness:
  "(apply_expr undefined_expr (Fin 0 + Fin 1) = NaN \<or> apply_expr undefined_expr (Fin 0 - Fin 1) = NaN) \<and>
   derivative apply_expr undefined_expr (Fin 0) (Fin 1) = NaN"
proof -
  have h: "apply_expr undefined_expr (Fin 0 + Fin 1) = NaN \<or> apply_expr undefined_expr (Fin 0 - Fin 1) = NaN"
    by (simp add: apply_expr_def undefined_expr_def)
  show ?thesis using h derivative_NaN [of apply_expr undefined_expr "Fin 0" "Fin 1", OF h] by blast
qed

lemma sq_minus_two_quadratic: "\<forall>t. apply_expr sq_minus_two (Fin t) = Fin ((-2) + 0 * t + 1 * t ^ 2)"
  by (simp add: apply_expr_def sq_minus_two_def power2_eq_square)

theorem derivative_exact_quadratic_witness:
  "(\<forall>t. apply_expr sq_minus_two (Fin t) = Fin ((-2) + 0 * t + 1 * t ^ 2)) \<and> (0.5::real) \<noteq> 0 \<and>
   derivative apply_expr sq_minus_two (Fin 3) (Fin 0.5) = Fin (0 + 2 * 1 * 3)"
proof -
  have h: "(0.5::real) \<noteq> 0" by simp
  show ?thesis
    using sq_minus_two_quadratic h
      derivative_exact_quadratic [of apply_expr sq_minus_two "-2" 0 1 "0.5" 3, OF sq_minus_two_quadratic h]
    by blast
qed

end
